theory Spec2Isabelle
  imports Main "HOL-Library.AList" "HOL-Library.Multiset" "HOL-Library.Sublist"
begin

section \<open>The CSV plugin (\<open>src/csvplugin.py\<close>)\<close>

text \<open>
  The plugin keeps at most one table, a pandas \<open>DataFrame\<close>, in its field
  \<open>dataframe\<close> and offers three operations: \<open>load_csv\<close>, \<open>get_data\<close> and \<open>query_data\<close>.
  The three methods are \<open>async\<close> but contain no \<open>await\<close>, so each runs to completion once
  started; they are modelled as functions from the plugin object (and the argument) to
  an outcome: what the call returns or raises, what it prints, and the plugin object
  afterwards.

  pandas is not part of the repository. Its two entry points that can fail,
  \<open>pd.read_csv\<close> and \<open>DataFrame.query\<close>, are parameters of the model; what they are
  assumed to do is written as a hypothesis of each theorem that needs it. The
  expression engine behind \<open>DataFrame.query\<close> can reach the plugin object, so it takes
  the object and returns it as the evaluation leaves it.
\<close>

subsection \<open>Python values\<close>

text \<open>
  The argument of \<open>load_csv\<close> is any Python object. The code only asks whether it is a
  \<open>str\<close> or an instance of \<open>io.IOBase\<close>, and otherwise formats its type:
  \<^item> \<open>PyStr p\<close>: the string \<open>p\<close>;
  \<^item> \<open>PyIOBase c t\<close>: an instance of the subclass \<open>c\<close> of \<open>IOBase\<close> that yields the text \<open>t\<close>;
  \<^item> \<open>PyOther c\<close>: an instance of any other class \<open>c\<close>.
\<close>

datatype py_object = PyStr string | PyIOBase string string | PyOther string

fun isinstance_str_IOBase :: "py_object \<Rightarrow> bool" where
  "isinstance_str_IOBase (PyStr p) = True"
| "isinstance_str_IOBase (PyIOBase c t) = True"
| "isinstance_str_IOBase (PyOther c) = False"

fun class_name :: "py_object \<Rightarrow> string" where
  "class_name (PyStr p) = ''str''"
| "class_name (PyIOBase c t) = c"
| "class_name (PyOther c) = c"

text \<open>What \<open>f"{type(path)}"\<close> gives, for example \<open><class 'int'>\<close>.\<close>

definition type_repr :: "py_object \<Rightarrow> string" where
  "type_repr x = ''<class '' @ [CHR 0x27] @ class_name x @ [CHR 0x27] @ ''>''"

text \<open>
  An exception is an instance of a subclass of Python's \<open>Exception\<close>: its class and the
  text \<open>str(e)\<close>. Both handlers of the plugin are \<open>except Exception\<close>, so every value of
  this type is caught by them. Interrupts and exit requests (\<open>KeyboardInterrupt\<close>,
  \<open>SystemExit\<close>), which are not instances of \<open>Exception\<close>, are outside the model.
\<close>

datatype exception = Exception (exc_class: string) (exc_str: string)

definition ValueError :: "string \<Rightarrow> exception" where
  "ValueError msg = Exception ''ValueError'' msg"

text \<open>
  A cell of a table: a number, a string, a boolean, or the missing value (pandas'
  \<open>NaN\<close>). The plugin never looks inside a cell, so its operations are polymorphic in
  the cell type \<open>'v\<close>; \<open>scalar\<close> is used where a claim speaks of numbers.
\<close>

datatype 'n scalar = Num 'n | Str string | Bool bool | NaN

subsection \<open>The table\<close>

text \<open>
  A \<open>DataFrame\<close>: the column names and the rows in order, each row with its index label
  and its cells. A frame read from a CSV file has the labels \<open>0, 1, 2, ...\<close>; a frame
  selected from it keeps the labels of the rows it keeps.
\<close>

record 'v DataFrame =
  columns :: "string list"
  rows :: "(int \<times> 'v list) list"

text \<open>
  A Python \<open>dict\<close> built from key/value pairs in order: a key that is already present
  keeps its position and takes the new value, a new key goes to the end.
\<close>

definition py_dict :: "('k \<times> 'a) list \<Rightarrow> ('k \<times> 'a) list" where
  "py_dict kvs = foldl (\<lambda>d kv. AList.update (fst kv) (snd kv) d) [] kvs"

text \<open>
  \<open>DataFrame.to_dict(orient='records')\<close>: one \<open>dict\<close> per row, in row order, from column
  name to cell; the index labels are dropped.
\<close>

definition to_dict_records :: "'v DataFrame \<Rightarrow> (string \<times> 'v) list list" where
  "to_dict_records df = map (\<lambda>r. py_dict (zip (columns df) (snd r))) (rows df)"

subsection \<open>The plugin object and the outcome of a call\<close>

text \<open>\<open>class CSVRow(TypedDict)\<close>: \<open>index: int\<close>, \<open>data: dict\<close>.\<close>

record 'v CSVRow =
  index :: int
  data :: "(string \<times> 'v) list"

text \<open>\<open>class CSVPlugin\<close>; \<open>__init__\<close> sets \<open>self.dataframe = None\<close>.\<close>

record 'v CSVPlugin =
  dataframe :: "'v DataFrame option"

definition init :: "'v CSVPlugin" where
  "init = \<lparr>dataframe = None\<rparr>"

text \<open>
  The outcome of a call: \<open>result\<close> is \<open>Inr\<close> the returned value or \<open>Inl\<close> the exception
  that reaches the caller, \<open>printed\<close> the lines written by \<open>print\<close>, \<open>self_after\<close> the
  plugin object when the call ends.
\<close>

datatype ('a, 'v) outcome =
  Outcome (result: "exception + 'a") (printed: "string list") (self_after: "'v CSVPlugin")

subsection \<open>The operations\<close>

text \<open>
  \<open>load_csv\<close>. The body of the \<open>try\<close> either raises or assigns the frame that
  \<open>pd.read_csv\<close> returned and returns \<open>True\<close>; the assignment is the last effect before the
  return, so when the handler runs the object is as it was at the call.
\<close>

definition load_csv ::
  "(py_object \<Rightarrow> exception + 'v DataFrame) \<Rightarrow> 'v CSVPlugin \<Rightarrow> py_object \<Rightarrow> (bool, 'v) outcome" where
  "load_csv read_csv self path =
     (case (if isinstance_str_IOBase path
            then (case read_csv path of
                    Inl e \<Rightarrow> Inl e
                  | Inr df \<Rightarrow> Inr (self\<lparr>dataframe := Some df\<rparr>))
            else Inl (ValueError (''Expected str or file-like object, got '' @ type_repr path)))
      of Inr self' \<Rightarrow> Outcome (Inr True) [] self'
       | Inl e \<Rightarrow> Outcome (Inr False) [''Error loading CSV: '' @ exc_str e] self)"

text \<open>\<open>[{"index": i, "data": row} for i, row in enumerate(data)]\<close>\<close>

definition row_views :: "(string \<times> 'v) list list \<Rightarrow> 'v CSVRow list" where
  "row_views ds = map (\<lambda>p. \<lparr>index = int (fst p), data = snd p\<rparr>) (List.enumerate 0 ds)"

definition get_data :: "'v CSVPlugin \<Rightarrow> ('v CSVRow list option, 'v) outcome" where
  "get_data self =
     (case dataframe self of
        None \<Rightarrow> Outcome (Inr None) [] self
      | Some df \<Rightarrow> Outcome (Inr (Some (row_views (to_dict_records df)))) [] self)"

text \<open>
  \<open>query_data\<close>. \<open>self.dataframe.query(condition)\<close> hands the condition to pandas'
  expression engine. The engine resolves a name written \<open>@name\<close> among the local
  variables of the caller, here \<open>self\<close> and \<open>condition\<close>, and calls the methods the
  condition names; so evaluating a condition can assign \<open>self.dataframe\<close> or alter the
  table in place. The engine is therefore a function of the table, the condition and
  the plugin object, giving the frame it returns or the exception it raises, and the
  plugin object as the evaluation leaves it (with the table as altered, when it was
  altered in place). \<open>query_data\<close> itself assigns nothing. A condition that deletes the
  attribute \<open>dataframe\<close> is outside the model: the record always has the field.
\<close>

type_synonym 'v engine =
  "'v DataFrame \<Rightarrow> string \<Rightarrow> 'v CSVPlugin \<Rightarrow> (exception + 'v DataFrame) \<times> 'v CSVPlugin"

definition query_data ::
  "'v engine \<Rightarrow> 'v CSVPlugin \<Rightarrow> string \<Rightarrow> ('v CSVRow list option, 'v) outcome" where
  "query_data query self condition =
     (case dataframe self of
        None \<Rightarrow> Outcome (Inr None) [] self
      | Some df \<Rightarrow>
          (case query df condition self of
             (Inr queried_data, self') \<Rightarrow>
               Outcome (Inr (Some (row_views (to_dict_records queried_data)))) [] self'
           | (Inl e, self') \<Rightarrow>
               Outcome (Inr None) [''Error querying data: '' @ exc_str e] self'))"

subsection \<open>What a condition selects\<close>

text \<open>
  \<open>DataFrame.query\<close> evaluates the condition to one truth value per row and returns
  \<open>self.loc[mask]\<close>: the rows where it is true, in order, with their labels, under the
  same columns. \<open>select_rows holds df\<close> is that frame for the row predicate \<open>holds\<close>.
\<close>

definition select_rows :: "(int \<times> 'v list \<Rightarrow> bool) \<Rightarrow> 'v DataFrame \<Rightarrow> 'v DataFrame" where
  "select_rows holds df = df\<lparr>rows := filter holds (rows df)\<rparr>"

text \<open>The cell of a row under a column name.\<close>

definition cell :: "'v DataFrame \<Rightarrow> string \<Rightarrow> int \<times> 'v list \<Rightarrow> 'v option" where
  "cell df col r = map_of (zip (columns df) (snd r)) col"

text \<open>
  The comparisons \<open>col > x\<close> and \<open>col <= x\<close> on a cell. On numbers they are the order's;
  a missing value is neither greater than nor at most any number.
\<close>

fun num_gt :: "('n::linorder) scalar option \<Rightarrow> 'n \<Rightarrow> bool" where
  "num_gt (Some (Num v)) x = (x < v)"
| "num_gt c x = False"

fun num_le :: "('n::linorder) scalar option \<Rightarrow> 'n \<Rightarrow> bool" where
  "num_le (Some (Num v)) x = (v \<le> x)"
| "num_le c x = False"

subsection \<open>Sequences of loads\<close>

text \<open>
  A sequence of \<open>load_csv\<close> calls on one plugin object; each call comes with what
  \<open>pd.read_csv\<close> does at that moment. The results of the calls and the object at the
  end.
\<close>

primrec run_loads ::
  "'v CSVPlugin \<Rightarrow> ((py_object \<Rightarrow> exception + 'v DataFrame) \<times> py_object) list
     \<Rightarrow> (exception + bool) list \<times> 'v CSVPlugin" where
  "run_loads self [] = ([], self)"
| "run_loads self (c # cs) =
     (let out = load_csv (fst c) self (snd c);
          rest = run_loads (self_after out) cs
      in (result out # fst rest, snd rest))"

subsection \<open>Example data\<close>

text \<open>
  The table \<open>a,b / 1,x / 5,y / 10,z\<close> of the specification's example, as
  \<open>pd.read_csv\<close> delivers it, and two worlds: one where every path is missing, one
  where every path holds the example.
\<close>

definition example_frame :: "int scalar DataFrame" where
  "example_frame = \<lparr>columns = [''a'', ''b''],
     rows = [(0, [Num 1, Str ''x'']), (1, [Num 5, Str ''y'']), (2, [Num 10, Str ''z''])]\<rparr>"

definition no_such_file :: "py_object \<Rightarrow> exception + int scalar DataFrame" where
  "no_such_file path = Inl (Exception ''FileNotFoundError'' ''No such file or directory'')"

definition reads_example :: "py_object \<Rightarrow> exception + int scalar DataFrame" where
  "reads_example path = Inr example_frame"

definition loaded :: "int scalar CSVPlugin" where
  "loaded = \<lparr>dataframe = Some example_frame\<rparr>"

text \<open>The same table with the numeric column named \<open>my col\<close>.\<close>

definition spaced_frame :: "int scalar DataFrame" where
  "spaced_frame = \<lparr>columns = [''my col'', ''b''],
     rows = [(0, [Num 1, Str ''x'']), (1, [Num 5, Str ''y'']), (2, [Num 10, Str ''z''])]\<rparr>"

definition spaced :: "int scalar CSVPlugin" where
  "spaced = \<lparr>dataframe = Some spaced_frame\<rparr>"

subsection \<open>An example engine\<close>

text \<open>
  What pandas does with a comparison of a column with an integer literal:
  \<^item> a name that is not a column raises \<open>UndefinedVariableError\<close>, whose text is
    \<open>name 'c' is not defined\<close>;
  \<^item> \<open>>\<close> and \<open><=\<close> on a column that holds strings raise \<open>TypeError\<close>;
  \<^item> \<open>==\<close> between a string and a number is false and raises nothing;
  \<^item> otherwise the rows where the comparison is true are selected.
\<close>

datatype cmp = Gt | Le | Eq

fun compare_cell :: "cmp \<Rightarrow> int scalar option \<Rightarrow> int \<Rightarrow> bool" where
  "compare_cell Gt c x = num_gt c x"
| "compare_cell Le c x = num_le c x"
| "compare_cell Eq c x = (c = Some (Num x))"

fun cmp_symbol :: "cmp \<Rightarrow> string" where
  "cmp_symbol Gt = ''>''"
| "cmp_symbol Le = ''<=''"
| "cmp_symbol Eq = ''==''"

definition holds_str :: "int scalar DataFrame \<Rightarrow> string \<Rightarrow> bool" where
  "holds_str df col =
     list_ex (\<lambda>r. case cell df col r of Some (Str s) \<Rightarrow> True | _ \<Rightarrow> False) (rows df)"

definition quoted :: "string \<Rightarrow> string" where
  "quoted s = [CHR 0x27] @ s @ [CHR 0x27]"

definition compare_column ::
  "string \<Rightarrow> cmp \<Rightarrow> int \<Rightarrow> int scalar DataFrame \<Rightarrow> exception + int scalar DataFrame" where
  "compare_column col rel x df =
     (if col \<notin> set (columns df)
      then Inl (Exception ''UndefinedVariableError'' (''name '' @ quoted col @ '' is not defined''))
      else if rel \<noteq> Eq \<and> holds_str df col
      then Inl (Exception ''TypeError''
             (quoted (cmp_symbol rel) @ '' not supported between instances of ''
                @ quoted ''str'' @ '' and '' @ quoted ''int''))
      else Inr (select_rows (\<lambda>r. compare_cell rel (cell df col r) x) df))"

text \<open>\<open>DataFrame.pop(col)\<close> removes the column from the table in place.\<close>

definition drop_column :: "string \<Rightarrow> 'v DataFrame \<Rightarrow> 'v DataFrame" where
  "drop_column col df =
     \<lparr>columns = filter (\<lambda>c. c \<noteq> col) (columns df),
      rows = map (\<lambda>r. (fst r, map snd (filter (\<lambda>p. fst p \<noteq> col) (zip (columns df) (snd r)))))
               (rows df)\<rparr>"

text \<open>
  The condition \<open>a > @self.dataframe.pop('b').size\<close>: while it is evaluated, the column
  \<open>b\<close> is removed from the stored table and its length becomes the threshold for \<open>a\<close>;
  when the table has no column \<open>b\<close>, \<open>pop\<close> raises \<open>KeyError\<close>.
\<close>

definition pop_condition :: string where
  "pop_condition = ''a > @self.dataframe.pop('' @ quoted ''b'' @ '').size''"

text \<open>
  The engine on the conditions used in the examples. The condition
  \<open>@self.__init__()\<close> calls the constructor, which sets \<open>self.dataframe = None\<close>, and
  has no table to select from, so an exception follows; its class and text vary with
  the pandas version and play no part below. Text that is not an expression, such as
  \<open>a >\<close> or a column name with a space, raises \<open>SyntaxError\<close>.
\<close>

definition example_query :: "int scalar engine" where
  "example_query df condition self =
     (if condition = ''a > 4'' then (compare_column ''a'' Gt 4 df, self)
      else if condition = ''a <= 4'' then (compare_column ''a'' Le 4 df, self)
      else if condition = ''a > 100'' then (compare_column ''a'' Gt 100 df, self)
      else if condition = ''b == 5'' then (compare_column ''b'' Eq 5 df, self)
      else if condition = ''b > 5'' then (compare_column ''b'' Gt 5 df, self)
      else if condition = ''c > 4'' then (compare_column ''c'' Gt 4 df, self)
      else if condition = ''@self.__init__()''
      then (Inl (Exception ''TypeError'' ''Cannot interpret NoneType as a data type''), init)
      else if condition = pop_condition
      then (if ''b'' \<in> set (columns df)
            then (compare_column ''a'' Gt (int (length (rows df))) (drop_column ''b'' df),
                  self\<lparr>dataframe := Some (drop_column ''b'' df)\<rparr>)
            else (Inl (Exception ''KeyError'' (quoted ''b'')), self))
      else (Inl (Exception ''SyntaxError'' ''invalid syntax''), self))"

section \<open>Failed and successful loads\<close>

lemma load_csv_cases:
  "load_csv read_csv self path =
     (if isinstance_str_IOBase path
      then (case read_csv path of
              Inr df \<Rightarrow> Outcome (Inr True) [] (self\<lparr>dataframe := Some df\<rparr>)
            | Inl e \<Rightarrow> Outcome (Inr False) [''Error loading CSV: '' @ exc_str e] self)
      else Outcome (Inr False)
             [''Error loading CSV: Expected str or file-like object, got '' @ type_repr path] self)"
  by (simp add: load_csv_def ValueError_def split: sum.splits)

text \<open>
  C1. When the plugin holds a table and \<open>load_csv\<close> returns \<open>False\<close>, whatever the
  cause, the plugin object after the call is the one before it, and \<open>get_data\<close> after
  the failed load returns what \<open>get_data\<close> returned before it: the row views of the
  table held before.
\<close>

theorem failed_load_keeps_table:
  assumes "dataframe self = Some df"
    and "result (load_csv read_csv self path) = Inr False"
  shows "self_after (load_csv read_csv self path) = self
       \<and> get_data (self_after (load_csv read_csv self path)) = get_data self
       \<and> result (get_data (self_after (load_csv read_csv self path)))
           = Inr (Some (row_views (to_dict_records df)))"
proof -
  have same: "self_after (load_csv read_csv self path) = self"
    using assms(2) by (simp add: load_csv_cases split: if_splits sum.splits)
  have "result (get_data self) = Inr (Some (row_views (to_dict_records df)))"
    using assms(1) by (simp add: get_data_def)
  with same show ?thesis by simp
qed

theorem failed_load_keeps_table_witness:
  "dataframe loaded = Some example_frame
   \<and> result (load_csv no_such_file loaded (PyStr ''missing.csv'')) = Inr False
   \<and> self_after (load_csv no_such_file loaded (PyStr ''missing.csv'')) = loaded
   \<and> result (get_data (self_after (load_csv no_such_file loaded (PyStr ''missing.csv''))))
       = Inr (Some (row_views (to_dict_records example_frame)))"
proof -
  have h1: "dataframe loaded = Some example_frame"
    by (simp add: loaded_def)
  have h2: "result (load_csv no_such_file loaded (PyStr ''missing.csv'')) = Inr False"
    by (simp add: load_csv_cases no_such_file_def)
  show ?thesis
    using failed_load_keeps_table [OF h1 h2] h1 h2 by (simp add: get_data_def)
qed


section \<open>Row views of the loaded table\<close>

lemma length_row_views: "length (row_views ds) = length ds"
  by (simp add: row_views_def)

lemma nth_row_views:
  "i < length ds \<Longrightarrow> row_views ds ! i = \<lparr>index = int i, data = ds ! i\<rparr>"
  by (simp add: row_views_def nth_enumerate_eq)

lemma map_data_row_views: "map data (row_views ds) = ds"
proof -
  have "map data (row_views ds) = map snd (List.enumerate 0 ds)"
    by (simp add: row_views_def comp_def)
  then show ?thesis by simp
qed

lemma map_index_row_views: "map index (row_views ds) = map int [0..<length ds]"
proof -
  have "map index (row_views ds) = map (int \<circ> fst) (List.enumerate 0 ds)"
    by (simp add: row_views_def comp_def)
  also have "\<dots> = map int (map fst (List.enumerate 0 ds))"
    by (simp only: map_map)
  finally show ?thesis by simp
qed

text \<open>
  With distinct column names, as \<open>pd.read_csv\<close> makes them, the record of a row pairs
  each column name with the row's cell, in column order.
\<close>

lemma update_fresh:
  "k \<notin> fst ` set d \<Longrightarrow> AList.update k v d = d @ [(k, v)]"
  by (induction d) auto

lemma foldl_update_distinct:
  "distinct (map fst (d @ kvs))
     \<Longrightarrow> foldl (\<lambda>d kv. AList.update (fst kv) (snd kv) d) d kvs = d @ kvs"
proof (induction kvs arbitrary: d)
  case Nil
  then show ?case by simp
next
  case (Cons kv kvs)
  from Cons.prems have fresh: "fst kv \<notin> fst ` set d" by auto
  from Cons.prems have "distinct (map fst ((d @ [kv]) @ kvs))" by simp
  from Cons.IH [OF this] fresh show ?case
    by (simp add: update_fresh)
qed

lemma py_dict_distinct: "distinct (map fst kvs) \<Longrightarrow> py_dict kvs = kvs"
  using foldl_update_distinct [of "[]" kvs] by (simp add: py_dict_def)

lemma record_distinct_columns:
  assumes "distinct cols" and "length cells = length cols"
  shows "py_dict (zip cols cells) = zip cols cells"
  using assms by (simp add: py_dict_distinct)

text \<open>
  C3. After a load that returned \<open>True\<close>, \<open>get_data\<close> returns one row view for each row
  of the frame that \<open>pd.read_csv\<close> delivered: as many as the \<open>N\<close> rows, the \<open>i\<close>-th with
  index \<open>i\<close> and with the \<open>dict\<close> from the column names to the cells of the \<open>i\<close>-th row.
\<close>

theorem get_data_after_load:
  assumes "result (load_csv read_csv self path) = Inr True"
  shows "\<exists>df rs. read_csv path = Inr df
       \<and> result (get_data (self_after (load_csv read_csv self path))) = Inr (Some rs)
       \<and> length rs = length (rows df)
       \<and> (\<forall>i < length (rows df).
            index (rs ! i) = int i
          \<and> data (rs ! i) = py_dict (zip (columns df) (snd (rows df ! i))))"
proof -
  from assms obtain df where df: "read_csv path = Inr df" and ok: "isinstance_str_IOBase path"
    by (auto simp add: load_csv_cases split: if_splits sum.splits)
  let ?rs = "row_views (to_dict_records df)"
  have after: "self_after (load_csv read_csv self path) = self\<lparr>dataframe := Some df\<rparr>"
    using df ok by (simp add: load_csv_cases)
  have got: "result (get_data (self_after (load_csv read_csv self path))) = Inr (Some ?rs)"
    by (simp add: after get_data_def)
  have len: "length ?rs = length (rows df)"
    by (simp add: length_row_views to_dict_records_def)
  have each: "index (?rs ! i) = int i
      \<and> data (?rs ! i) = py_dict (zip (columns df) (snd (rows df ! i)))"
    if "i < length (rows df)" for i
    using that by (simp add: nth_row_views to_dict_records_def)
  from df got len each show ?thesis by blast
qed

text \<open>The specification's example: the three rows come back with indices 0, 1, 2.\<close>

theorem get_data_after_load_witness:
  "result (load_csv reads_example init (PyStr ''data.csv'')) = Inr True
   \<and> result (get_data (self_after (load_csv reads_example init (PyStr ''data.csv''))))
       = Inr (Some [\<lparr>index = 0, data = [(''a'', Num 1), (''b'', Str ''x'')]\<rparr>,
                    \<lparr>index = 1, data = [(''a'', Num 5), (''b'', Str ''y'')]\<rparr>,
                    \<lparr>index = 2, data = [(''a'', Num 10), (''b'', Str ''z'')]\<rparr>])"
proof -
  have h: "result (load_csv reads_example init (PyStr ''data.csv'')) = Inr True"
    by (simp add: load_csv_cases reads_example_def)
  have "self_after (load_csv reads_example init (PyStr ''data.csv'')) = loaded"
    by (simp add: load_csv_cases reads_example_def init_def loaded_def)
  then show ?thesis
    using get_data_after_load [OF h] h
    by (simp add: get_data_def row_views_def to_dict_records_def py_dict_def example_frame_def
        loaded_def)
qed


section \<open>Queries\<close>

lemma query_data_loaded:
  assumes "dataframe self = Some df"
  shows "query_data query self condition =
     (case fst (query df condition self) of
        Inr queried_data \<Rightarrow>
          Outcome (Inr (Some (row_views (to_dict_records queried_data)))) []
            (snd (query df condition self))
      | Inl e \<Rightarrow>
          Outcome (Inr None) [''Error querying data: '' @ exc_str e]
            (snd (query df condition self)))"
  using assms by (simp add: query_data_def split: prod.splits sum.splits)

lemma to_dict_records_select_rows:
  "to_dict_records (select_rows holds df)
     = map (\<lambda>r. py_dict (zip (columns df) (snd r))) (filter holds (rows df))"
  by (simp add: to_dict_records_def select_rows_def)

text \<open>
  C4. When the table is loaded and the condition is well formed, that is, the query
  engine evaluates it to a truth value \<open>holds r\<close> for each row \<open>r\<close> and selects the rows
  where it is true, \<open>query_data\<close> returns the records of exactly those rows, in the
  order they have in the table (a subsequence of what \<open>get_data\<close> returns), with the
  indices \<open>0, 1, 2, ...\<close> of their positions in the result and not their labels in the
  table.
\<close>

theorem query_data_filters:
  assumes "dataframe self = Some df"
    and "fst (query df condition self) = Inr (select_rows holds df)"
  shows "\<exists>rs. result (query_data query self condition) = Inr (Some rs)
       \<and> map data rs = map (\<lambda>r. py_dict (zip (columns df) (snd r))) (filter holds (rows df))
       \<and> map index rs = map int [0..<length (filter holds (rows df))]
       \<and> subseq (map data rs) (to_dict_records df)"
proof -
  let ?ds = "to_dict_records (select_rows holds df)"
  have res: "result (query_data query self condition) = Inr (Some (row_views ?ds))"
    using assms by (simp add: query_data_loaded)
  have d: "map data (row_views ?ds)
      = map (\<lambda>r. py_dict (zip (columns df) (snd r))) (filter holds (rows df))"
    by (simp only: map_data_row_views to_dict_records_select_rows)
  have "length ?ds = length (filter holds (rows df))"
    by (simp add: to_dict_records_select_rows)
  then have i: "map index (row_views ?ds) = map int [0..<length (filter holds (rows df))]"
    by (simp only: map_index_row_views)
  have "subseq (filter holds (rows df)) (rows df)"
    by (rule subseq_filter_left)
  then have "subseq (map (\<lambda>r. py_dict (zip (columns df) (snd r))) (filter holds (rows df)))
      (map (\<lambda>r. py_dict (zip (columns df) (snd r))) (rows df))"
    by (rule subseq_map)
  then have s: "subseq (map data (row_views ?ds)) (to_dict_records df)"
    by (simp only: d) (simp add: to_dict_records_def)
  from res d i s show ?thesis by blast
qed

lemma example_a_gt_4:
  "example_query example_frame ''a > 4'' self
     = (Inr (select_rows (\<lambda>r. num_gt (cell example_frame ''a'' r) 4) example_frame), self)"
  by (simp add: example_query_def compare_column_def holds_str_def cell_def example_frame_def)

lemma example_a_le_4:
  "example_query example_frame ''a <= 4'' self
     = (Inr (select_rows (\<lambda>r. num_le (cell example_frame ''a'' r) 4) example_frame), self)"
  by (simp add: example_query_def compare_column_def holds_str_def cell_def example_frame_def)

lemma example_a_gt_100:
  "example_query example_frame ''a > 100'' self
     = (Inr (select_rows (\<lambda>r. num_gt (cell example_frame ''a'' r) 100) example_frame), self)"
  by (simp add: example_query_def compare_column_def holds_str_def cell_def example_frame_def)

text \<open>
  The specification's example: \<open>a > 4\<close> keeps the rows labelled 1 and 2 of the table,
  which come back with the indices 0 and 1.
\<close>

theorem query_data_filters_witness:
  "dataframe loaded = Some example_frame
   \<and> fst (example_query example_frame ''a > 4'' loaded)
       = Inr (select_rows (\<lambda>r. num_gt (cell example_frame ''a'' r) 4) example_frame)
   \<and> rows (select_rows (\<lambda>r. num_gt (cell example_frame ''a'' r) 4) example_frame)
       = [(1, [Num 5, Str ''y'']), (2, [Num 10, Str ''z''])]
   \<and> result (query_data example_query loaded ''a > 4'')
       = Inr (Some [\<lparr>index = 0, data = [(''a'', Num 5), (''b'', Str ''y'')]\<rparr>,
                    \<lparr>index = 1, data = [(''a'', Num 10), (''b'', Str ''z'')]\<rparr>])"
proof -
  have h1: "dataframe loaded = Some example_frame"
    by (simp add: loaded_def)
  have h2: "fst (example_query example_frame ''a > 4'' loaded)
       = Inr (select_rows (\<lambda>r. num_gt (cell example_frame ''a'' r) 4) example_frame)"
    by (simp add: example_a_gt_4)
  have h3: "rows (select_rows (\<lambda>r. num_gt (cell example_frame ''a'' r) 4) example_frame)
       = [(1, [Num 5, Str ''y'']), (2, [Num 10, Str ''z''])]"
    by (simp add: select_rows_def cell_def example_frame_def)
  have r: "result (query_data example_query loaded ''a > 4'')
       = Inr (Some [\<lparr>index = 0, data = [(''a'', Num 5), (''b'', Str ''y'')]\<rparr>,
                    \<lparr>index = 1, data = [(''a'', Num 10), (''b'', Str ''z'')]\<rparr>])"
    by (simp add: query_data_loaded [OF h1] example_a_gt_4)
       (simp add: to_dict_records_def row_views_def py_dict_def select_rows_def cell_def
          example_frame_def)
  show ?thesis
    using query_data_filters [where query = example_query
        and holds = "\<lambda>r. num_gt (cell example_frame ''a'' r) 4", OF h1 h2] h1 h2 h3 r
    by simp
qed

text \<open>
  C7. When the table is loaded, the condition is well formed and no row satisfies it,
  \<open>query_data\<close> returns the empty list, which is not \<open>None\<close>.
\<close>

theorem query_data_no_match:
  assumes "dataframe self = Some df"
    and "fst (query df condition self) = Inr (select_rows holds df)"
    and "\<forall>r \<in> set (rows df). \<not> holds r"
  shows "result (query_data query self condition) = Inr (Some [])
       \<and> result (query_data query self condition) \<noteq> Inr None"
proof -
  have "filter holds (rows df) = []"
    using assms(3) by (simp add: filter_empty_conv)
  then have "to_dict_records (select_rows holds df) = []"
    by (simp add: to_dict_records_select_rows)
  then show ?thesis
    using assms(1,2) by (simp add: query_data_loaded row_views_def)
qed

theorem query_data_no_match_witness:
  "dataframe loaded = Some example_frame
   \<and> fst (example_query example_frame ''a > 100'' loaded)
       = Inr (select_rows (\<lambda>r. num_gt (cell example_frame ''a'' r) 100) example_frame)
   \<and> map (\<lambda>r. num_gt (cell example_frame ''a'' r) 100) (rows example_frame)
       = [False, False, False]
   \<and> result (query_data example_query loaded ''a > 100'') = Inr (Some [])"
proof -
  have h1: "dataframe loaded = Some example_frame"
    by (simp add: loaded_def)
  have h2: "fst (example_query example_frame ''a > 100'' loaded)
       = Inr (select_rows (\<lambda>r. num_gt (cell example_frame ''a'' r) 100) example_frame)"
    by (simp add: example_a_gt_100)
  have h3: "\<forall>r \<in> set (rows example_frame). \<not> num_gt (cell example_frame ''a'' r) 100"
    by (simp add: cell_def example_frame_def)
  have m: "map (\<lambda>r. num_gt (cell example_frame ''a'' r) 100) (rows example_frame)
       = [False, False, False]"
    by (simp add: cell_def example_frame_def)
  show ?thesis
    using query_data_no_match [where query = example_query
        and holds = "\<lambda>r. num_gt (cell example_frame ''a'' r) 100", OF h1 h2 h3] h1 h2 m
    by simp
qed

section \<open>Conditions the engine rejects\<close>

lemma example_unknown_column:
  "example_query example_frame ''c > 4'' self
     = (Inl (Exception ''UndefinedVariableError'' (''name '' @ quoted ''c'' @ '' is not defined'')),
        self)"
  by (simp add: example_query_def compare_column_def example_frame_def)

lemma example_b_eq_5:
  "example_query example_frame ''b == 5'' self
     = (Inr (select_rows (\<lambda>r. cell example_frame ''b'' r = Some (Num 5)) example_frame), self)"
  by (simp add: example_query_def compare_column_def example_frame_def)

text \<open>
  C6, as stated, fails: the claim counts every type-mismatched comparison as a
  malformed condition that returns \<open>None\<close>. On the example table, whose column \<open>b\<close>
  holds strings, the condition \<open>b == 5\<close> compares strings with a number; pandas raises
  nothing, no row is equal to 5, and \<open>query_data\<close> returns the empty list.
\<close>

theorem mismatched_equality_counterexample:
  "result (query_data example_query loaded ''b == 5'') = Inr (Some [])
   \<and> result (query_data example_query loaded ''b == 5'') \<noteq> Inr None"
proof -
  have h1: "dataframe loaded = Some example_frame"
    by (simp add: loaded_def)
  have "to_dict_records
      (select_rows (\<lambda>r. cell example_frame ''b'' r = Some (Num 5)) example_frame) = []"
    by (simp add: to_dict_records_def select_rows_def cell_def example_frame_def)
  then show ?thesis
    by (simp add: query_data_loaded [OF h1] example_b_eq_5 row_views_def)
qed

text \<open>
  C6, amended. When the table is loaded and the expression engine raises on the
  condition, as it does for text that is not an expression, for a name that is not a
  column and for an ordering comparison of a string column with a number,
  \<open>query_data\<close> returns \<open>None\<close>, raises nothing to the caller and prints the message of
  the exception.
\<close>

theorem query_data_engine_raises:
  assumes "dataframe self = Some df"
    and "fst (query df condition self) = Inl e"
  shows "result (query_data query self condition) = Inr None
       \<and> printed (query_data query self condition) = [''Error querying data: '' @ exc_str e]"
  using assms by (simp add: query_data_loaded)

text \<open>
  The three kinds on the example: the unknown column \<open>c\<close>, the incomplete text \<open>a >\<close>,
  and the string column \<open>b\<close> compared with \<open>>\<close> to a number.
\<close>

theorem query_data_engine_raises_witness:
  "dataframe loaded = Some example_frame
   \<and> fst (example_query example_frame ''c > 4'' loaded)
       = Inl (Exception ''UndefinedVariableError'' (''name '' @ quoted ''c'' @ '' is not defined''))
   \<and> result (query_data example_query loaded ''c > 4'') = Inr None
   \<and> printed (query_data example_query loaded ''c > 4'')
       = [''Error querying data: name '' @ quoted ''c'' @ '' is not defined'']
   \<and> isl (fst (example_query example_frame ''a >'' loaded))
   \<and> result (query_data example_query loaded ''a >'') = Inr None
   \<and> isl (fst (example_query example_frame ''b > 5'' loaded))
   \<and> result (query_data example_query loaded ''b > 5'') = Inr None"
proof -
  have h1: "dataframe loaded = Some example_frame"
    by (simp add: loaded_def)
  have h2: "fst (example_query example_frame ''c > 4'' loaded)
       = Inl (Exception ''UndefinedVariableError'' (''name '' @ quoted ''c'' @ '' is not defined''))"
    by (simp add: example_unknown_column)
  have s: "fst (example_query example_frame ''a >'' loaded)
       = Inl (Exception ''SyntaxError'' ''invalid syntax'')"
    by (simp add: example_query_def pop_condition_def)
  have t: "fst (example_query example_frame ''b > 5'' loaded)
       = Inl (Exception ''TypeError''
           (quoted (cmp_symbol Gt) @ '' not supported between instances of ''
              @ quoted ''str'' @ '' and '' @ quoted ''int''))"
    by (simp add: example_query_def compare_column_def holds_str_def cell_def example_frame_def)
  show ?thesis
    using query_data_engine_raises [where query = example_query, OF h1 h2]
      query_data_engine_raises [where query = example_query, OF h1 s]
      query_data_engine_raises [where query = example_query, OF h1 t]
      h1 h2 s t
    by simp
qed

section \<open>Greater-than and at-most on a numeric column\<close>

text \<open>
  A missing value satisfies neither \<open>col > x\<close> nor \<open>col <= x\<close>; the two conditions
  divide the rows only of a column whose cells are all numbers.
\<close>

lemma missing_cell_in_neither:
  "\<not> num_gt (Some NaN) x \<and> \<not> num_le (Some NaN) x"
  by simp

text \<open>
  C8, as stated, fails: the claim covers every purely numeric column. The column
  \<open>my col\<close> holds the numbers 1, 5 and 10, but \<open>my col > 4\<close> and \<open>my col <= 4\<close> are not
  expressions; the engine raises on both, both calls return \<open>None\<close>, and none of the
  three rows that \<open>get_data\<close> returns is in either result.
\<close>

theorem unparsed_column_counterexample:
  "map (cell spaced_frame ''my col'') (rows spaced_frame)
       = [Some (Num 1), Some (Num 5), Some (Num 10)]
   \<and> result (query_data example_query spaced (''my col'' @ '' > '' @ ''4'')) = Inr None
   \<and> result (query_data example_query
         (self_after (query_data example_query spaced (''my col'' @ '' > '' @ ''4'')))
         (''my col'' @ '' <= '' @ ''4'')) = Inr None
   \<and> result (get_data spaced)
       = Inr (Some [\<lparr>index = 0, data = [(''my col'', Num 1), (''b'', Str ''x'')]\<rparr>,
                    \<lparr>index = 1, data = [(''my col'', Num 5), (''b'', Str ''y'')]\<rparr>,
                    \<lparr>index = 2, data = [(''my col'', Num 10), (''b'', Str ''z'')]\<rparr>])"
proof -
  have m: "map (cell spaced_frame ''my col'') (rows spaced_frame)
       = [Some (Num 1), Some (Num 5), Some (Num 10)]"
    by (simp add: cell_def spaced_frame_def)
  have g: "example_query df ''my col > 4'' self
       = (Inl (Exception ''SyntaxError'' ''invalid syntax''), self)" for df self
    by (simp add: example_query_def pop_condition_def)
  have l: "example_query df ''my col <= 4'' self
       = (Inl (Exception ''SyntaxError'' ''invalid syntax''), self)" for df self
    by (simp add: example_query_def pop_condition_def)
  have q1: "query_data example_query spaced ''my col > 4''
       = Outcome (Inr None) [''Error querying data: invalid syntax''] spaced"
    by (simp add: query_data_def spaced_def g)
  have q2: "query_data example_query spaced ''my col <= 4''
       = Outcome (Inr None) [''Error querying data: invalid syntax''] spaced"
    by (simp add: query_data_def spaced_def l)
  have t: "result (get_data spaced)
       = Inr (Some [\<lparr>index = 0, data = [(''my col'', Num 1), (''b'', Str ''x'')]\<rparr>,
                    \<lparr>index = 1, data = [(''my col'', Num 5), (''b'', Str ''y'')]\<rparr>,
                    \<lparr>index = 2, data = [(''my col'', Num 10), (''b'', Str ''z'')]\<rparr>])"
    by (simp add: get_data_def spaced_def to_dict_records_def row_views_def py_dict_def
        spaced_frame_def)
  from m q1 q2 t show ?thesis by simp
qed

text \<open>
  C8, amended. Let the table be loaded and let every cell of the column \<open>col\<close> be a
  number. When the engine evaluates \<open>col > X\<close> and \<open>col <= X\<close> as the comparisons of
  that cell with the number \<open>x\<close> and leaves the plugin as it is (as it does when \<open>col\<close>
  is an identifier and \<open>X\<close> a numeric literal), every row satisfies exactly one of the
  two conditions, and the records returned for \<open>col > X\<close> together with those returned
  by the following call for \<open>col <= X\<close> are, as a multiset, the records that \<open>get_data\<close>
  returns: no row is left out and none is in both results.
\<close>

theorem query_gt_le_partition:
  assumes "dataframe self = Some df"
    and "\<forall>r \<in> set (rows df). \<exists>v. cell df col r = Some (Num v)"
    and "query df (col @ '' > '' @ X) self
           = (Inr (select_rows (\<lambda>r. num_gt (cell df col r) x) df), self)"
    and "query df (col @ '' <= '' @ X) self
           = (Inr (select_rows (\<lambda>r. num_le (cell df col r) x) df), self)"
  shows "\<exists>gs ls ts.
         result (query_data query self (col @ '' > '' @ X)) = Inr (Some gs)
       \<and> result (query_data query (self_after (query_data query self (col @ '' > '' @ X)))
           (col @ '' <= '' @ X)) = Inr (Some ls)
       \<and> result (get_data self) = Inr (Some ts)
       \<and> mset (map data gs) + mset (map data ls) = mset (map data ts)
       \<and> (\<forall>r \<in> set (rows df). num_gt (cell df col r) x \<noteq> num_le (cell df col r) x)"
proof -
  let ?gt = "\<lambda>r. num_gt (cell df col r) x"
  let ?le = "\<lambda>r. num_le (cell df col r) x"
  let ?rec = "\<lambda>r. py_dict (zip (columns df) (snd r))"
  let ?gs = "row_views (to_dict_records (select_rows ?gt df))"
  let ?ls = "row_views (to_dict_records (select_rows ?le df))"
  let ?ts = "row_views (to_dict_records df)"
  have one: "?le r = (\<not> ?gt r)" if "r \<in> set (rows df)" for r
  proof -
    from that assms(2) obtain v where "cell df col r = Some (Num v)" by blast
    then show ?thesis by (simp add: not_less)
  qed
  then have le: "filter ?le (rows df) = filter (\<lambda>r. \<not> ?gt r) (rows df)"
    by (simp cong: filter_cong)
  have g: "result (query_data query self (col @ '' > '' @ X)) = Inr (Some ?gs)"
    using assms(1,3) by (simp add: query_data_loaded)
  have same: "self_after (query_data query self (col @ '' > '' @ X)) = self"
    using assms(1,3) by (simp add: query_data_loaded)
  have l: "result (query_data query (self_after (query_data query self (col @ '' > '' @ X)))
      (col @ '' <= '' @ X)) = Inr (Some ?ls)"
    unfolding same using assms(1,4) by (simp add: query_data_loaded)
  have t: "result (get_data self) = Inr (Some ?ts)"
    using assms(1) by (simp add: get_data_def)
  have "mset (filter ?gt (rows df)) + mset (filter (\<lambda>r. \<not> ?gt r) (rows df)) = mset (rows df)"
    by simp
  then have "mset (map ?rec (filter ?gt (rows df))) + mset (map ?rec (filter ?le (rows df)))
      = mset (map ?rec (rows df))"
    by (simp only: le flip: mset_append map_append) (metis mset_append mset_map)
  then have m: "mset (map data ?gs) + mset (map data ?ls) = mset (map data ?ts)"
    by (simp only: map_data_row_views to_dict_records_select_rows) (simp add: to_dict_records_def)
  from one have "\<forall>r \<in> set (rows df). ?gt r \<noteq> ?le r" by blast
  with g l t m show ?thesis by blast
qed

text \<open>On the example, \<open>a > 4\<close> returns the rows with 5 and 10 and \<open>a <= 4\<close> the row with 1.\<close>

theorem query_gt_le_partition_witness:
  "dataframe loaded = Some example_frame
   \<and> map (cell example_frame ''a'') (rows example_frame)
       = [Some (Num 1), Some (Num 5), Some (Num 10)]
   \<and> example_query example_frame (''a'' @ '' > '' @ ''4'') loaded
       = (Inr (select_rows (\<lambda>r. num_gt (cell example_frame ''a'' r) 4) example_frame), loaded)
   \<and> example_query example_frame (''a'' @ '' <= '' @ ''4'') loaded
       = (Inr (select_rows (\<lambda>r. num_le (cell example_frame ''a'' r) 4) example_frame), loaded)
   \<and> result (query_data example_query loaded ''a > 4'')
       = Inr (Some [\<lparr>index = 0, data = [(''a'', Num 5), (''b'', Str ''y'')]\<rparr>,
                    \<lparr>index = 1, data = [(''a'', Num 10), (''b'', Str ''z'')]\<rparr>])
   \<and> result (query_data example_query (self_after (query_data example_query loaded ''a > 4''))
         ''a <= 4'')
       = Inr (Some [\<lparr>index = 0, data = [(''a'', Num 1), (''b'', Str ''x'')]\<rparr>])"
proof -
  have h1: "dataframe loaded = Some example_frame"
    by (simp add: loaded_def)
  have h2: "\<forall>r \<in> set (rows example_frame). \<exists>v. cell example_frame ''a'' r = Some (Num v)"
    by (simp add: cell_def example_frame_def)
  have m: "map (cell example_frame ''a'') (rows example_frame)
       = [Some (Num 1), Some (Num 5), Some (Num 10)]"
    by (simp add: cell_def example_frame_def)
  have h3: "example_query example_frame (''a'' @ '' > '' @ ''4'') loaded
       = (Inr (select_rows (\<lambda>r. num_gt (cell example_frame ''a'' r) 4) example_frame), loaded)"
    by (simp add: example_a_gt_4)
  have h4: "example_query example_frame (''a'' @ '' <= '' @ ''4'') loaded
       = (Inr (select_rows (\<lambda>r. num_le (cell example_frame ''a'' r) 4) example_frame), loaded)"
    by (simp add: example_a_le_4)
  have same: "self_after (query_data example_query loaded ''a > 4'') = loaded"
    by (simp add: query_data_loaded [OF h1] example_a_gt_4)
  have g: "result (query_data example_query loaded ''a > 4'')
       = Inr (Some [\<lparr>index = 0, data = [(''a'', Num 5), (''b'', Str ''y'')]\<rparr>,
                    \<lparr>index = 1, data = [(''a'', Num 10), (''b'', Str ''z'')]\<rparr>])"
    by (simp add: query_data_loaded [OF h1] example_a_gt_4)
       (simp add: to_dict_records_def row_views_def py_dict_def select_rows_def cell_def
          example_frame_def)
  have l: "result (query_data example_query loaded ''a <= 4'')
       = Inr (Some [\<lparr>index = 0, data = [(''a'', Num 1), (''b'', Str ''x'')]\<rparr>])"
    by (simp add: query_data_loaded [OF h1] example_a_le_4)
       (simp add: to_dict_records_def row_views_def py_dict_def select_rows_def cell_def
          example_frame_def)
  show ?thesis
    using query_gt_le_partition [where query = example_query and x = 4, OF h1 h2 h3 h4]
      h1 m h3 h4 g l same
    by simp
qed

section \<open>What reading does to the table\<close>

lemma self_after_get_data: "self_after (get_data self) = self"
  by (cases "dataframe self") (simp_all add: get_data_def)

lemma self_after_query_data:
  "self_after (query_data query self condition)
     = (case dataframe self of None \<Rightarrow> self | Some df \<Rightarrow> snd (query df condition self))"
  by (simp add: query_data_def split: option.splits prod.splits sum.splits)

lemma example_init_condition:
  "example_query df ''@self.__init__()'' self
     = (Inl (Exception ''TypeError'' ''Cannot interpret NoneType as a data type''), init)"
  by (simp add: example_query_def)

text \<open>
  C9, as stated, fails: the claim covers every condition string. The condition
  \<open>@self.__init__()\<close> is a string like any other; evaluating it calls the constructor
  of the plugin, and after the call the stored table is gone: \<open>get_data\<close> returns \<open>None\<close>
  where it returned three rows.
\<close>

theorem condition_resets_table_counterexample:
  "dataframe loaded = Some example_frame
   \<and> dataframe (self_after (query_data example_query loaded ''@self.__init__()'')) = None
   \<and> dataframe (self_after (query_data example_query loaded ''@self.__init__()''))
       \<noteq> dataframe loaded
   \<and> result (get_data (self_after (query_data example_query loaded ''@self.__init__()'')))
       = Inr None"
proof -
  have h: "dataframe loaded = Some example_frame"
    by (simp add: loaded_def)
  have a: "self_after (query_data example_query loaded ''@self.__init__()'') = init"
    by (simp add: self_after_query_data h example_init_condition)
  have n: "dataframe (init :: int scalar CSVPlugin) = None"
    by (simp add: init_def)
  from h a n show ?thesis by (simp add: get_data_def)
qed

text \<open>
  C9, amended. \<open>get_data\<close> never modifies the stored table. \<open>query_data\<close> assigns
  nothing itself: with no table it leaves the plugin as it is, with a table the plugin
  after the call is the one the engine's evaluation of the condition leaves. So
  \<open>query_data\<close> leaves the table as it was for every condition whose evaluation does not
  touch the plugin.
\<close>

theorem reads_keep_table_unless_engine:
  "self_after (get_data self) = self
   \<and> dataframe (self_after (get_data self)) = dataframe self
   \<and> (dataframe self = None \<longrightarrow> self_after (query_data query self condition) = self)
   \<and> (\<forall>df. dataframe self = Some df \<longrightarrow>
         self_after (query_data query self condition) = snd (query df condition self))
   \<and> ((\<forall>df. dataframe self = Some df \<longrightarrow> snd (query df condition self) = self) \<longrightarrow>
         self_after (query_data query self condition) = self
       \<and> dataframe (self_after (query_data query self condition)) = dataframe self)"
proof -
  have q: "self_after (query_data query self condition) = self"
    if "\<forall>df. dataframe self = Some df \<longrightarrow> snd (query df condition self) = self"
    using that by (cases "dataframe self") (simp_all add: self_after_query_data)
  show ?thesis
    using q by (simp add: self_after_get_data self_after_query_data)
qed

theorem reads_keep_table_unless_engine_witness:
  "dataframe loaded = Some example_frame
   \<and> snd (example_query example_frame ''a > 4'' loaded) = loaded
   \<and> self_after (get_data loaded) = loaded
   \<and> self_after (query_data example_query loaded ''a > 4'') = loaded
   \<and> dataframe (self_after (query_data example_query loaded ''a > 4'')) = Some example_frame"
proof -
  have h: "dataframe loaded = Some example_frame"
    by (simp add: loaded_def)
  have e: "snd (example_query example_frame ''a > 4'' loaded) = loaded"
    by (simp add: example_a_gt_4)
  show ?thesis
    using reads_keep_table_unless_engine [where self = loaded and query = example_query
        and condition = "''a > 4''"] h e
    by simp
qed





section \<open>Before the first successful load\<close>

lemma run_loads_no_table:
  assumes "dataframe self = None"
    and "Inr True \<notin> set (fst (run_loads self calls))"
  shows "dataframe (snd (run_loads self calls)) = None"
  using assms
proof (induction calls arbitrary: self)
  case Nil
  then show ?case by simp
next
  case (Cons c cs)
  let ?out = "load_csv (fst c) self (snd c)"
  from Cons.prems(2) have failed: "result ?out \<noteq> Inr True"
    and rest: "Inr True \<notin> set (fst (run_loads (self_after ?out) cs))"
    by (auto simp add: Let_def)
  from failed have "self_after ?out = self"
    by (simp add: load_csv_cases split: if_splits sum.splits)
  with Cons.prems(1) have "dataframe (self_after ?out) = None" by simp
  from Cons.IH [OF this rest] show ?case by (simp add: Let_def)
qed

text \<open>
  C5. Start from a new plugin object and make any sequence of \<open>load_csv\<close> calls none
  of which returns \<open>True\<close>. Then \<open>get_data\<close> returns \<open>None\<close>, and so does \<open>query_data\<close> for
  every condition, without consulting the query engine.
\<close>

theorem no_table_before_first_load:
  assumes "Inr True \<notin> set (fst (run_loads init calls))"
  shows "result (get_data (snd (run_loads init calls))) = Inr None
       \<and> result (query_data query (snd (run_loads init calls)) condition) = Inr None"
proof -
  have "dataframe (init :: 'a CSVPlugin) = None"
    by (simp add: init_def)
  from run_loads_no_table [OF this assms]
  show ?thesis by (simp add: get_data_def query_data_def)
qed

theorem no_table_before_first_load_witness:
  "Inr True \<notin> set (fst (run_loads init
       [(no_such_file, PyStr ''missing.csv''), (reads_example, PyOther ''int'')]))
   \<and> fst (run_loads init
       [(no_such_file, PyStr ''missing.csv''), (reads_example, PyOther ''int'')])
       = [Inr False, Inr False]
   \<and> result (get_data (snd (run_loads init
       [(no_such_file, PyStr ''missing.csv''), (reads_example, PyOther ''int'')]))) = Inr None
   \<and> result (query_data example_query (snd (run_loads init
       [(no_such_file, PyStr ''missing.csv''), (reads_example, PyOther ''int'')])) ''a > 4'')
       = Inr None"
proof -
  have r: "fst (run_loads init
       [(no_such_file, PyStr ''missing.csv''), (reads_example, PyOther ''int'')])
       = [Inr False, Inr False]"
    by (simp add: load_csv_cases no_such_file_def Let_def)
  then have h: "Inr True \<notin> set (fst (run_loads init
       [(no_such_file, PyStr ''missing.csv''), (reads_example, PyOther ''int'')]))"
    by simp
  show ?thesis
    using no_table_before_first_load [where query = example_query and condition = "''a > 4''",
        OF h] h r
    by simp
qed

end
